theory Spec2Isabelle
  imports Main
begin

section \<open>The client-side store of task lists and tasks (AppProvider.tsx)\<close>

subsection \<open>Domain entities\<close>

text \<open>
  Modelled from the spec: the declarations of \<^verbatim>\<open>TaskList\<close> (./domain/TaskList) and
  \<^verbatim>\<open>Task\<close> (./domain/Task) are imported by AppProvider.tsx and are not part of the
  source. The spec gives each an identifier (a string) and descriptive fields that are
  opaque to the store; the store itself only ever reads \<^verbatim>\<open>.id\<close>. The opaque fields are
  kept as one string, which is also the body type \<^verbatim>\<open>Omit<_, "id">\<close> of the create
  operations.
\<close>

record TaskList =
  tl_id :: string
  tl_fields :: string

record Task =
  task_id :: string
  task_fields :: string

subsection \<open>Failures\<close>

text \<open>
  How an operation ends when it does not succeed: the promise of an api method rejects
  with the axios error (nothing catches it); calling a property that is
  \<^verbatim>\<open>undefined\<close>, calling \<^verbatim>\<open>.map\<close> or \<^verbatim>\<open>.filter\<close> on a value that has none, or
  spreading a value that is not iterable throws a \<^verbatim>\<open>TypeError\<close>; and
  \<^verbatim>\<open>useAppContext\<close> throws an \<^verbatim>\<open>Error\<close> with a message.
\<close>

datatype AxiosError = TransportFailure | HttpStatus nat

datatype Failure = Rejection AxiosError | TypeError | Error string

subsection \<open>The state\<close>

text \<open>
  \<^verbatim>\<open>interface AppState { taskLists: TaskList[]; tasks: { [taskListId: string]: Task[] } }\<close>

  At run time an own property of \<^verbatim>\<open>tasks\<close> holds either an array or, after
  \<^verbatim>\<open>UPDATE_TASK\<close> or \<^verbatim>\<open>DELETE_TASK\<close> on a key without an array, the value
  \<^verbatim>\<open>undefined\<close>. The object is a map from its own keys to such values: \<open>None\<close> is
  a key the object does not have, \<open>Some Undefined\<close> a key that holds
  \<^verbatim>\<open>undefined\<close>. The object spread and the computed key of the reducer define own
  properties, whatever the key.
\<close>

datatype TaskSeq = Undefined | Tasks "Task list"

record AppState =
  taskLists :: "TaskList list"
  tasks :: "string \<rightharpoonup> TaskSeq"

text \<open>
  \<^verbatim>\<open>tasks\<close> is a plain object (\<^verbatim>\<open>{}\<close> initially, an object literal after every
  transition), so its prototype is \<^verbatim>\<open>Object.prototype\<close>, and a read of a key the
  object does not own finds the properties of the prototype. These are the names
  \<^verbatim>\<open>Object.prototype\<close> has in the language: eleven functions and the accessor
  \<^verbatim>\<open>__proto__\<close>, which returns the prototype itself.
\<close>

definition Object_prototype_keys :: "string list" where
  "Object_prototype_keys =
     [''constructor'', ''hasOwnProperty'', ''isPrototypeOf'', ''propertyIsEnumerable'',
      ''toLocaleString'', ''toString'', ''valueOf'', ''__proto__'',
      ''__defineGetter__'', ''__defineSetter__'', ''__lookupGetter__'',
      ''__lookupSetter__'']"

text \<open>
  What the property read \<^verbatim>\<open>state.tasks[k]\<close> gives: the value of the own property;
  for a key that is not owned, the inherited function or object when the prototype has
  the name, and \<^verbatim>\<open>undefined\<close> otherwise. Every inherited value is truthy, is not
  iterable and has neither \<^verbatim>\<open>map\<close> nor \<^verbatim>\<open>filter\<close>.
\<close>

datatype Read = Value TaskSeq | Inherited

definition tasks_at :: "AppState \<Rightarrow> string \<Rightarrow> Read" where
  "tasks_at st k =
     (case tasks st k of
        Some v \<Rightarrow> Value v
      | None \<Rightarrow> if k \<in> set Object_prototype_keys then Inherited else Value Undefined)"

text \<open>
  \<^verbatim>\<open>v?.map(f)\<close> and \<^verbatim>\<open>v?.filter(p)\<close>: \<^verbatim>\<open>undefined\<close> stays \<^verbatim>\<open>undefined\<close>; an
  inherited value is not \<^verbatim>\<open>undefined\<close>, so the method is looked up on it, is
  \<^verbatim>\<open>undefined\<close>, and the call throws.
\<close>

fun optional_map :: "(Task \<Rightarrow> Task) \<Rightarrow> Read \<Rightarrow> Failure + TaskSeq" where
  "optional_map f (Value Undefined) = Inr Undefined"
| "optional_map f (Value (Tasks ts)) = Inr (Tasks (map f ts))"
| "optional_map f Inherited = Inl TypeError"

fun optional_filter :: "(Task \<Rightarrow> bool) \<Rightarrow> Read \<Rightarrow> Failure + TaskSeq" where
  "optional_filter p (Value Undefined) = Inr Undefined"
| "optional_filter p (Value (Tasks ts)) = Inr (Tasks (filter p ts))"
| "optional_filter p Inherited = Inl TypeError"

text \<open>
  \<^verbatim>\<open>v || d\<close> for an array \<^verbatim>\<open>d\<close>, on a value that is an array or \<^verbatim>\<open>undefined\<close>:
  \<^verbatim>\<open>undefined\<close> is falsy, every array (the empty one too) is truthy.
\<close>

fun or_else :: "TaskSeq \<Rightarrow> Task list \<Rightarrow> Task list" where
  "or_else Undefined d = d"
| "or_else (Tasks ts) d = ts"

text \<open>
  The elements that \<^verbatim>\<open>...(v || [])\<close> spreads into an array literal: an inherited value
  is truthy, so it is the operand of the spread, and it is not iterable.
\<close>

fun spread_or_empty :: "Read \<Rightarrow> Failure + Task list" where
  "spread_or_empty (Value v) = Inr (or_else v [])"
| "spread_or_empty Inherited = Inl TypeError"

subsection \<open>Actions and the reducer\<close>

datatype Action =
    FETCH_TASKLISTS "TaskList list"
  | GET_TASKLIST TaskList
  | CREATE_TASKLIST TaskList
  | UPDATE_TASKLIST TaskList
  | DELETE_TASKLIST string
  | FETCH_TASKS string "Task list"
  | CREATE_TASK string Task
  | GET_TASK string Task
  | UPDATE_TASK string string Task
  | DELETE_TASK string string

text \<open>
  The arguments of the task actions are the fields of the payload object, in the order
  \<^verbatim>\<open>taskListId\<close>, \<^verbatim>\<open>taskId\<close>, \<^verbatim>\<open>task\<close> (or \<^verbatim>\<open>tasks\<close>). The \<^verbatim>\<open>default\<close> branch of
  the \<^verbatim>\<open>switch\<close> is not reached by an action of this type. The reducer returns the
  new state (\<open>Inr\<close>) or throws (\<open>Inl\<close>); the four cases that read
  \<^verbatim>\<open>state.tasks[taskListId]\<close> throw when the value read is an inherited one.
\<close>

fun reducer :: "AppState \<Rightarrow> Action \<Rightarrow> Failure + AppState" where
  "reducer state (FETCH_TASKLISTS payload) = Inr (state\<lparr>taskLists := payload\<rparr>)"
| "reducer state (GET_TASKLIST payload) =
     Inr (state\<lparr>taskLists :=
       (if list_ex (\<lambda>tl. tl_id tl = tl_id payload) (taskLists state)
        then map (\<lambda>tl. if tl_id tl = tl_id payload then payload else tl) (taskLists state)
        else taskLists state @ [payload])\<rparr>)"
| "reducer state (CREATE_TASKLIST payload) =
     Inr (state\<lparr>taskLists := taskLists state @ [payload]\<rparr>)"
| "reducer state (UPDATE_TASKLIST payload) =
     Inr (state\<lparr>taskLists :=
       map (\<lambda>tl. if tl_id tl = tl_id payload then payload else tl) (taskLists state)\<rparr>)"
| "reducer state (DELETE_TASKLIST payload) =
     Inr (state\<lparr>taskLists := filter (\<lambda>tl. tl_id tl \<noteq> payload) (taskLists state)\<rparr>)"
| "reducer state (FETCH_TASKS taskListId ts) =
     Inr (state\<lparr>tasks := (tasks state)(taskListId \<mapsto> Tasks ts)\<rparr>)"
| "reducer state (CREATE_TASK taskListId task) =
     (case spread_or_empty (tasks_at state taskListId) of
        Inl err \<Rightarrow> Inl err
      | Inr ts \<Rightarrow> Inr (state\<lparr>tasks := (tasks state)(taskListId \<mapsto> Tasks (ts @ [task]))\<rparr>))"
| "reducer state (GET_TASK taskListId task) =
     (case optional_map (\<lambda>t. if task_id t = task_id task then task else t)
             (tasks_at state taskListId) of
        Inl err \<Rightarrow> Inl err
      | Inr v \<Rightarrow>
          Inr (state\<lparr>tasks := (tasks state)(taskListId \<mapsto> Tasks (or_else v [task]))\<rparr>))"
| "reducer state (UPDATE_TASK taskListId taskId task) =
     (case optional_map (\<lambda>t. if task_id t = taskId then task else t)
             (tasks_at state taskListId) of
        Inl err \<Rightarrow> Inl err
      | Inr v \<Rightarrow> Inr (state\<lparr>tasks := (tasks state)(taskListId \<mapsto> v)\<rparr>))"
| "reducer state (DELETE_TASK taskListId taskId) =
     (case optional_filter (\<lambda>t. task_id t \<noteq> taskId) (tasks_at state taskListId) of
        Inl err \<Rightarrow> Inl err
      | Inr v \<Rightarrow> Inr (state\<lparr>tasks := (tasks state)(taskListId \<mapsto> v)\<rparr>))"

definition initialState :: AppState where
  "initialState = \<lparr>taskLists = [], tasks = Map.empty\<rparr>"

subsection \<open>The API object\<close>

text \<open>
  Every method of the object is \<^verbatim>\<open>async\<close>: it awaits one axios call and then
  dispatches one action. axios is a library outside this repository; the request a
  method sends is fixed by its arguments, and what the store does afterwards depends
  only on how the returned promise settles, so the settled promise is a parameter of
  the method: rejected (a transport failure or a status that axios refuses, which by
  its default is every status outside 200..299) or resolved with the response's
  \<^verbatim>\<open>data\<close>.
\<close>

datatype 'r Promise = Rejected AxiosError | Resolved 'r

text \<open>
  A method takes its arguments, the settled promise and the state, and gives the state
  afterwards and how the call ended.
\<close>

type_synonym ('a, 'r) Method =
  "'a \<Rightarrow> 'r Promise \<Rightarrow> AppState \<Rightarrow> AppState \<times> (Failure + unit)"

text \<open>
  \<^verbatim>\<open>dispatch\<close> of \<^verbatim>\<open>useReducer\<close>: the state becomes what the reducer returns. A
  reducer that throws commits no state, and its error is raised when the provider
  renders; the actions the api object dispatches are of the six kinds whose cases
  never throw.
\<close>

definition dispatch :: "Action \<Rightarrow> AppState \<Rightarrow> AppState \<times> (Failure + unit)" where
  "dispatch action st =
     (case reducer st action of
        Inl err \<Rightarrow> (st, Inl err)
      | Inr st' \<Rightarrow> (st', Inr ()))"

text \<open>
  \<^verbatim>\<open>const { data } = await axios...; dispatch(action(data))\<close>: a rejection leaves the
  \<^verbatim>\<open>await\<close> before \<^verbatim>\<open>dispatch\<close> runs.
\<close>

definition await_dispatch ::
  "'r Promise \<Rightarrow> ('r \<Rightarrow> Action) \<Rightarrow> AppState \<Rightarrow> AppState \<times> (Failure + unit)" where
  "await_dispatch p action st =
     (case p of
        Rejected e \<Rightarrow> (st, Inl (Rejection e))
      | Resolved data \<Rightarrow> dispatch (action data) st)"

text \<open>
  The type \<^verbatim>\<open>AppContextType["api"]\<close> declares nine methods. A property that the
  object literal does not define reads as \<^verbatim>\<open>undefined\<close>, here \<open>None\<close>.
\<close>

record Api =
  fetchTaskLists :: "(unit, TaskList list) Method option"
  getTaskList :: "(string, TaskList) Method option"
  createTaskList :: "(string, TaskList) Method option"
  updateTaskList :: "(string \<times> TaskList, TaskList) Method option"
  deleteTaskList :: "(string, unit) Method option"
  fetchTasks :: "(string, Task list) Method option"
  createTask :: "(string \<times> string, Task) Method option"
  updateTask :: "(string \<times> string \<times> Task, Task) Method option"
  deleteTask :: "(string \<times> string, unit) Method option"

text \<open>The object literal \<^verbatim>\<open>api\<close> of \<^verbatim>\<open>AppProvider\<close>: six methods.\<close>

definition AppProvider_api :: Api where
  "AppProvider_api =
     \<lparr>fetchTaskLists = Some (\<lambda>_ p. await_dispatch p FETCH_TASKLISTS),
      getTaskList = Some (\<lambda>id p. await_dispatch p GET_TASKLIST),
      createTaskList = Some (\<lambda>taskList p. await_dispatch p CREATE_TASKLIST),
      updateTaskList = Some (\<lambda>(id, taskList) p. await_dispatch p UPDATE_TASKLIST),
      deleteTaskList = Some (\<lambda>id p. await_dispatch p (\<lambda>_. DELETE_TASKLIST id)),
      fetchTasks = Some (\<lambda>taskListId p. await_dispatch p (FETCH_TASKS taskListId)),
      createTask = None,
      updateTask = None,
      deleteTask = None\<rparr>"

text \<open>
  A call \<^verbatim>\<open>api.m(args)\<close>: calling \<^verbatim>\<open>undefined\<close> throws a \<^verbatim>\<open>TypeError\<close> before
  any request is sent and leaves the state as it is.
\<close>

fun invoke :: "('a, 'r) Method option \<Rightarrow> ('a, 'r) Method" where
  "invoke None args p st = (st, Inl TypeError)"
| "invoke (Some m) args p st = m args p st"

subsection \<open>The context and its accessor\<close>

record AppContextType =
  state :: AppState
  api :: Api

text \<open>
  Where a component that calls \<^verbatim>\<open>useAppContext\<close> is rendered: below an
  \<^verbatim>\<open>AppProvider\<close> whose reducer state is \<open>st\<close>, or below none.
  \<^verbatim>\<open>useContext(AppContext)\<close> gives the value of the nearest provider,
  \<^verbatim>\<open>{ state, api }\<close>, and the default of \<^verbatim>\<open>createContext\<close>, \<^verbatim>\<open>undefined\<close>, where
  there is none.
\<close>

datatype Scope = Outside | WithinProvider AppState

fun useContext :: "Scope \<Rightarrow> AppContextType option" where
  "useContext Outside = None"
| "useContext (WithinProvider st) = Some \<lparr>state = st, api = AppProvider_api\<rparr>"

definition useAppContext :: "Scope \<Rightarrow> Failure + AppContextType" where
  "useAppContext sc =
     (case useContext sc of
        None \<Rightarrow> Inl (Error ''useAppContext must be used within an AppProvider'')
      | Some context \<Rightarrow> Inr context)"

section \<open>Auxiliary facts\<close>

text \<open>The six methods the object defines, called through \<open>invoke\<close>.\<close>

lemma invoke_api:
  "invoke (fetchTaskLists AppProvider_api) u pls st = await_dispatch pls FETCH_TASKLISTS st"
  "invoke (getTaskList AppProvider_api) i pl st = await_dispatch pl GET_TASKLIST st"
  "invoke (createTaskList AppProvider_api) b pl st = await_dispatch pl CREATE_TASKLIST st"
  "invoke (updateTaskList AppProvider_api) (i, body) pl st
     = await_dispatch pl UPDATE_TASKLIST st"
  "invoke (deleteTaskList AppProvider_api) i pu st
     = await_dispatch pu (\<lambda>_. DELETE_TASKLIST i) st"
  "invoke (fetchTasks AppProvider_api) i pts st = await_dispatch pts (FETCH_TASKS i) st"
  by (simp_all add: AppProvider_api_def)

text \<open>
  The actions the api object dispatches never make the reducer throw: every successful
  request ends in a successful call.
\<close>

lemma api_dispatch_succeeds:
  "snd (invoke (fetchTaskLists AppProvider_api) u (Resolved ls) st) = Inr ()"
  "snd (invoke (getTaskList AppProvider_api) i (Resolved x) st) = Inr ()"
  "snd (invoke (createTaskList AppProvider_api) b (Resolved x) st) = Inr ()"
  "snd (invoke (updateTaskList AppProvider_api) (i, body) (Resolved x) st) = Inr ()"
  "snd (invoke (deleteTaskList AppProvider_api) i (Resolved ()) st) = Inr ()"
  "snd (invoke (fetchTasks AppProvider_api) i (Resolved ts) st) = Inr ()"
  by (simp_all add: invoke_api await_dispatch_def dispatch_def)

text \<open>Replacing by key changes nothing when no element has the key.\<close>

lemma map_replace_absent:
  "k \<notin> f ` set xs \<Longrightarrow> map (\<lambda>x. if f x = k then y else x) xs = xs"
  by (induction xs) auto

text \<open>With distinct keys, filtering out the key of one element removes that element only.\<close>

lemma filter_remove_one:
  assumes d: "distinct (map f (pre @ e # post))"
  shows "filter (\<lambda>x. f x \<noteq> f e) (pre @ e # post) = pre @ post"
proof -
  have "filter (\<lambda>x. f x \<noteq> f e) pre = pre"
    using d by (intro filter_True) (auto simp add: image_iff)
  moreover have "filter (\<lambda>x. f x \<noteq> f e) post = post"
    using d by (intro filter_True) (auto simp add: image_iff)
  ultimately show ?thesis by simp
qed

text \<open>
  The \<^verbatim>\<open>CREATE_TASK\<close> transition by itself, where the read of the key gives an
  array or \<^verbatim>\<open>undefined\<close>: one task appended under the key, a key without an array
  starting from the empty one; nothing else changes.
\<close>

lemma reducer_CREATE_TASK_appends:
  "tasks_at st l = Value v \<Longrightarrow>
     reducer st (CREATE_TASK l t)
       = Inr (st\<lparr>tasks := (tasks st)(l \<mapsto> Tasks (or_else v [] @ [t]))\<rparr>)"
  by simp

text \<open>
  The \<^verbatim>\<open>GET_TASK\<close> transition on a key that holds an array maps over the array, so
  the array keeps its length whether or not the task's id occurs in it.
\<close>

lemma reducer_GET_TASK_present:
  "tasks st l = Some (Tasks ts) \<Longrightarrow>
     reducer st (GET_TASK l t)
       = Inr (st\<lparr>tasks := (tasks st)(l \<mapsto>
           Tasks (map (\<lambda>x. if task_id x = task_id t then t else x) ts))\<rparr>)"
  by (simp add: tasks_at_def)

text \<open>
  On a key the object does not own and the prototype has, each of the four task
  transitions that read the key throws.
\<close>

lemma reducer_inherited_key_throws:
  "tasks st l = None \<Longrightarrow> l \<in> set Object_prototype_keys \<Longrightarrow>
     reducer st (CREATE_TASK l t) = Inl TypeError
   \<and> reducer st (GET_TASK l t) = Inl TypeError
   \<and> reducer st (UPDATE_TASK l k t) = Inl TypeError
   \<and> reducer st (DELETE_TASK l k) = Inl TypeError"
  by (simp add: tasks_at_def)

text \<open>
  The scenario of the spec: from the initial state, the listing \<open>[A]\<close>, then the tasks
  of \<open>A\<close>, then deleting \<open>A\<close> leaves no list and the tasks of \<open>A\<close> in place.
\<close>

lemma scenario_delete_orphans_tasks:
  "fst (invoke (deleteTaskList AppProvider_api) ''A'' (Resolved ())
     (fst (invoke (fetchTasks AppProvider_api) ''A''
        (Resolved [\<lparr>task_id = ''1'', task_fields = ''x''\<rparr>])
        (fst (invoke (fetchTaskLists AppProvider_api) ()
           (Resolved [\<lparr>tl_id = ''A'', tl_fields = ''Work''\<rparr>]) initialState)))))
   = \<lparr>taskLists = [],
      tasks = [''A'' \<mapsto> Tasks [\<lparr>task_id = ''1'', task_fields = ''x''\<rparr>]]\<rparr>"
  by (simp add: invoke_api await_dispatch_def dispatch_def initialState_def)

section \<open>The claims\<close>

text \<open>
  Claim C1. The task transitions follow the task-list ones, and \<^verbatim>\<open>GET_TASK\<close> is an
  upsert: a task whose id is absent from the sequence of its list is appended.

  The reducer does not do this. With the task \<open>1\<close> under the key \<open>L\<close>, fetching the
  task \<open>2\<close> of \<open>L\<close> leaves the state as it was: the array is mapped, an array is
  truthy, and the fallback \<^verbatim>\<open>|| [task]\<close> is taken only when the key holds no array.
  The sibling \<^verbatim>\<open>GET_TASKLIST\<close>, on the same shape of input, appends.
\<close>

theorem GET_TASK_absent_id_not_appended:
  "reducer
     \<lparr>taskLists = [], tasks = [''L'' \<mapsto> Tasks [\<lparr>task_id = ''1'', task_fields = ''x''\<rparr>]]\<rparr>
     (GET_TASK ''L'' \<lparr>task_id = ''2'', task_fields = ''y''\<rparr>)
   = Inr \<lparr>taskLists = [], tasks = [''L'' \<mapsto> Tasks [\<lparr>task_id = ''1'', task_fields = ''x''\<rparr>]]\<rparr>
 \<and> reducer
     \<lparr>taskLists = [\<lparr>tl_id = ''1'', tl_fields = ''x''\<rparr>], tasks = Map.empty\<rparr>
     (GET_TASKLIST \<lparr>tl_id = ''2'', tl_fields = ''y''\<rparr>)
   = Inr \<lparr>taskLists = [\<lparr>tl_id = ''1'', tl_fields = ''x''\<rparr>, \<lparr>tl_id = ''2'', tl_fields = ''y''\<rparr>],
          tasks = Map.empty\<rparr>"
  by (simp add: tasks_at_def)

text \<open>
  Claim C2. When the network call of an operation fails (the axios promise rejects,
  for a transport failure or a refused status such as 500), the operation fails to its
  caller with that error and the state is exactly the prior one. This holds for each of
  the six methods of the object, for \<^verbatim>\<open>createTaskList\<close> against a 500 in particular;
  the three methods the object lacks fail before any request and leave the state alone
  as well.
\<close>

theorem api_failure_leaves_state:
  "invoke (fetchTaskLists AppProvider_api) u (Rejected e) st = (st, Inl (Rejection e))
 \<and> invoke (getTaskList AppProvider_api) i (Rejected e) st = (st, Inl (Rejection e))
 \<and> invoke (createTaskList AppProvider_api) b (Rejected e) st = (st, Inl (Rejection e))
 \<and> invoke (updateTaskList AppProvider_api) (i, body) (Rejected e) st
      = (st, Inl (Rejection e))
 \<and> invoke (deleteTaskList AppProvider_api) i (Rejected e) st = (st, Inl (Rejection e))
 \<and> invoke (fetchTasks AppProvider_api) i (Rejected e) st = (st, Inl (Rejection e))
 \<and> invoke (createTaskList AppProvider_api) b (Rejected (HttpStatus 500)) st
      = (st, Inl (Rejection (HttpStatus 500)))
 \<and> invoke (createTask AppProvider_api) a1 (Rejected e) st = (st, Inl TypeError)
 \<and> invoke (updateTask AppProvider_api) a2 (Rejected e) st = (st, Inl TypeError)
 \<and> invoke (deleteTask AppProvider_api) a3 (Rejected e) st = (st, Inl TypeError)"
proof -
  have "createTask AppProvider_api = None" "updateTask AppProvider_api = None"
    "deleteTask AppProvider_api = None"
    by (simp_all add: AppProvider_api_def)
  then show ?thesis
    by (simp add: invoke_api await_dispatch_def dispatch_def)
qed

text \<open>
  Claim C3. After any non-empty sequence of successful \<^verbatim>\<open>fetchTaskLists\<close> calls,
  from any prior state, \<^verbatim>\<open>taskLists\<close> is the response of the last call and nothing
  else of the state has changed: earlier states and earlier responses leave no trace.
\<close>

theorem fetchTaskLists_last_response:
  "rs \<noteq> [] \<Longrightarrow>
   foldl (\<lambda>s r. fst (invoke (fetchTaskLists AppProvider_api) () (Resolved r) s)) st rs
     = st\<lparr>taskLists := last rs\<rparr>"
proof (induction rs arbitrary: st)
  case Nil
  then show ?case by simp
next
  case (Cons r rs)
  show ?case
  proof (cases rs)
    case Nil
    then show ?thesis by (simp add: invoke_api await_dispatch_def dispatch_def)
  next
    case (Cons r' rs')
    with Cons.IH [of "st\<lparr>taskLists := r\<rparr>"] show ?thesis
      by (simp add: invoke_api await_dispatch_def dispatch_def)
  qed
qed

theorem fetchTaskLists_last_response_witness:
  "[[\<lparr>tl_id = ''A'', tl_fields = ''Work''\<rparr>], [\<lparr>tl_id = ''B'', tl_fields = ''Home''\<rparr>]] \<noteq> []
 \<and> foldl (\<lambda>s r. fst (invoke (fetchTaskLists AppProvider_api) () (Resolved r) s))
      \<lparr>taskLists = [\<lparr>tl_id = ''Z'', tl_fields = ''Old''\<rparr>], tasks = Map.empty\<rparr>
      [[\<lparr>tl_id = ''A'', tl_fields = ''Work''\<rparr>], [\<lparr>tl_id = ''B'', tl_fields = ''Home''\<rparr>]]
    = \<lparr>taskLists = [\<lparr>tl_id = ''B'', tl_fields = ''Home''\<rparr>], tasks = Map.empty\<rparr>"
proof -
  have h: "[[\<lparr>tl_id = ''A'', tl_fields = ''Work''\<rparr>], [\<lparr>tl_id = ''B'', tl_fields = ''Home''\<rparr>]]
    \<noteq> []" by simp
  show ?thesis
    using fetchTaskLists_last_response
      [OF h, of "\<lparr>taskLists = [\<lparr>tl_id = ''Z'', tl_fields = ''Old''\<rparr>], tasks = Map.empty\<rparr>"]
    by simp
qed

text \<open>
  Claim C4. A successful \<^verbatim>\<open>getTaskList\<close> upserts the fetched list \<open>p\<close>. If an entry
  with the id of \<open>p\<close> is there, the sequence keeps its length and, position by
  position, an entry with that id is now \<open>p\<close> and every other entry is what it was. If
  no entry has that id, the sequence is the old one with \<open>p\<close> appended. The tasks are
  untouched and the call succeeds.
\<close>

theorem getTaskList_upsert:
  "((\<exists>x\<in>set (taskLists st). tl_id x = tl_id p) \<longrightarrow>
      length (taskLists (fst (invoke (getTaskList AppProvider_api) i (Resolved p) st)))
        = length (taskLists st)
    \<and> (\<forall>j<length (taskLists st).
         taskLists (fst (invoke (getTaskList AppProvider_api) i (Resolved p) st)) ! j
           = (if tl_id (taskLists st ! j) = tl_id p then p else taskLists st ! j)))
 \<and> ((\<forall>x\<in>set (taskLists st). tl_id x \<noteq> tl_id p) \<longrightarrow>
      taskLists (fst (invoke (getTaskList AppProvider_api) i (Resolved p) st))
        = taskLists st @ [p])
 \<and> tasks (fst (invoke (getTaskList AppProvider_api) i (Resolved p) st)) = tasks st
 \<and> snd (invoke (getTaskList AppProvider_api) i (Resolved p) st) = Inr ()"
  by (auto simp add: invoke_api await_dispatch_def dispatch_def list_ex_iff)

theorem getTaskList_upsert_witness:
  "(\<exists>x\<in>set [\<lparr>tl_id = ''A'', tl_fields = ''Work''\<rparr>, \<lparr>tl_id = ''B'', tl_fields = ''Home''\<rparr>].
      tl_id x = tl_id \<lparr>tl_id = ''A'', tl_fields = ''Job''\<rparr>)
 \<and> (0::nat) < length [\<lparr>tl_id = ''A'', tl_fields = ''Work''\<rparr>, \<lparr>tl_id = ''B'', tl_fields = ''Home''\<rparr>]
 \<and> taskLists (fst (invoke (getTaskList AppProvider_api) ''A''
      (Resolved \<lparr>tl_id = ''A'', tl_fields = ''Job''\<rparr>)
      \<lparr>taskLists = [\<lparr>tl_id = ''A'', tl_fields = ''Work''\<rparr>, \<lparr>tl_id = ''B'', tl_fields = ''Home''\<rparr>],
       tasks = Map.empty\<rparr>)) ! 0
    = \<lparr>tl_id = ''A'', tl_fields = ''Job''\<rparr>
 \<and> tl_id \<lparr>tl_id = ''A'', tl_fields = ''Work''\<rparr> \<noteq> tl_id \<lparr>tl_id = ''B'', tl_fields = ''Home''\<rparr>
 \<and> taskLists (fst (invoke (getTaskList AppProvider_api) ''B''
      (Resolved \<lparr>tl_id = ''B'', tl_fields = ''Home''\<rparr>)
      \<lparr>taskLists = [\<lparr>tl_id = ''A'', tl_fields = ''Work''\<rparr>], tasks = Map.empty\<rparr>))
    = [\<lparr>tl_id = ''A'', tl_fields = ''Work''\<rparr>, \<lparr>tl_id = ''B'', tl_fields = ''Home''\<rparr>]"
  using
    getTaskList_upsert
      [where st = "\<lparr>taskLists = [\<lparr>tl_id = ''A'', tl_fields = ''Work''\<rparr>,
                       \<lparr>tl_id = ''B'', tl_fields = ''Home''\<rparr>], tasks = Map.empty\<rparr>"
         and p = "\<lparr>tl_id = ''A'', tl_fields = ''Job''\<rparr>" and i = "''A''"]
    getTaskList_upsert
      [where st = "\<lparr>taskLists = [\<lparr>tl_id = ''A'', tl_fields = ''Work''\<rparr>], tasks = Map.empty\<rparr>"
         and p = "\<lparr>tl_id = ''B'', tl_fields = ''Home''\<rparr>" and i = "''B''"]
  by simp

text \<open>
  Claim C5. An update with an unknown id is a silent no-op: \<^verbatim>\<open>updateTaskList(id, data)\<close>
  with an id that matches no entry leaves \<^verbatim>\<open>taskLists\<close> unchanged, and
  \<^verbatim>\<open>updateTask(listId, taskId, data)\<close> with a task id that matches no task leaves the
  task sequence of the list unchanged.

  As stated this fails in two places. The reducer matches entries by the id of the list
  the server returned, not by the id argument: with the argument \<open>Z\<close>, which no entry
  has, and a response that carries the id \<open>A\<close>, the entry \<open>A\<close> is replaced. And for a
  list id that the \<^verbatim>\<open>tasks\<close> object does not own and \<^verbatim>\<open>Object.prototype\<close> has, the
  \<^verbatim>\<open>UPDATE_TASK\<close> transition is not silent: it throws.
\<close>

theorem update_unknown_id_counterexample:
  "''Z'' \<notin> tl_id ` set [\<lparr>tl_id = ''A'', tl_fields = ''Work''\<rparr>]
 \<and> invoke (updateTaskList AppProvider_api) (''Z'', \<lparr>tl_id = ''Z'', tl_fields = ''New''\<rparr>)
      (Resolved \<lparr>tl_id = ''A'', tl_fields = ''Job''\<rparr>)
      \<lparr>taskLists = [\<lparr>tl_id = ''A'', tl_fields = ''Work''\<rparr>], tasks = Map.empty\<rparr>
    = (\<lparr>taskLists = [\<lparr>tl_id = ''A'', tl_fields = ''Job''\<rparr>], tasks = Map.empty\<rparr>, Inr ())
 \<and> [\<lparr>tl_id = ''A'', tl_fields = ''Job''\<rparr>] \<noteq> [\<lparr>tl_id = ''A'', tl_fields = ''Work''\<rparr>]
 \<and> tasks initialState ''constructor'' = None
 \<and> reducer initialState (UPDATE_TASK ''constructor'' ''9'' \<lparr>task_id = ''9'', task_fields = ''y''\<rparr>)
    = Inl TypeError"
  by (simp add: invoke_api await_dispatch_def dispatch_def initialState_def tasks_at_def
      Object_prototype_keys_def)

text \<open>
  Claim C5, amended. When no entry of \<^verbatim>\<open>taskLists\<close> has the id of the list the server
  returned, \<^verbatim>\<open>UPDATE_TASKLIST\<close>, and with it a successful \<^verbatim>\<open>updateTaskList\<close>, gives
  back the prior state. When the read of \<^verbatim>\<open>tasks[l]\<close> gives an array or
  \<^verbatim>\<open>undefined\<close> (the key is owned, or the prototype does not have it) and no task
  there has the id \<open>k\<close>, the \<^verbatim>\<open>UPDATE_TASK\<close> transition succeeds and its state is
  the prior one with what was read stored under \<open>l\<close>: the sequence, every other key and
  \<^verbatim>\<open>taskLists\<close> are as before, and a key that was owned leaves the state the same.
\<close>

theorem update_unknown_id_noop:
  "((\<forall>x\<in>set (taskLists st). tl_id x \<noteq> tl_id p) \<longrightarrow>
      reducer st (UPDATE_TASKLIST p) = Inr st
    \<and> invoke (updateTaskList AppProvider_api) (i, body) (Resolved p) st = (st, Inr ()))
 \<and> (tasks_at st l = Value v \<and> k \<notin> task_id ` set (or_else v []) \<longrightarrow>
      reducer st (UPDATE_TASK l k t) = Inr (st\<lparr>tasks := (tasks st)(l \<mapsto> v)\<rparr>))
 \<and> (tasks st l = Some v \<and> k \<notin> task_id ` set (or_else v []) \<longrightarrow>
      reducer st (UPDATE_TASK l k t) = Inr st)"
proof -
  have a: "reducer st (UPDATE_TASKLIST p) = Inr st"
    if "\<forall>x\<in>set (taskLists st). tl_id x \<noteq> tl_id p"
  proof -
    from that have "tl_id p \<notin> tl_id ` set (taskLists st)" by auto
    then show ?thesis by (simp add: map_replace_absent)
  qed
  have b: "optional_map (\<lambda>x. if task_id x = k then t else x) (Value w) = Inr w"
    if "k \<notin> task_id ` set (or_else w [])" for w
    using that by (cases w) (simp_all add: map_replace_absent)
  have c: "reducer st (UPDATE_TASK l k t) = Inr (st\<lparr>tasks := (tasks st)(l \<mapsto> v)\<rparr>)"
    if "tasks_at st l = Value v" "k \<notin> task_id ` set (or_else v [])"
    using that b [of v] by simp
  have d: "reducer st (UPDATE_TASK l k t) = Inr st"
    if "tasks st l = Some v" "k \<notin> task_id ` set (or_else v [])"
  proof -
    from that(1) have "tasks_at st l = Value v" by (simp add: tasks_at_def)
    moreover from that(1) have "(tasks st)(l \<mapsto> v) = tasks st" by (rule map_upd_triv)
    ultimately show ?thesis using c that(2) by simp
  qed
  from a have "(\<forall>x\<in>set (taskLists st). tl_id x \<noteq> tl_id p) \<longrightarrow>
      reducer st (UPDATE_TASKLIST p) = Inr st
    \<and> invoke (updateTaskList AppProvider_api) (i, body) (Resolved p) st = (st, Inr ())"
    by (simp add: invoke_api await_dispatch_def dispatch_def)
  with c d show ?thesis by blast
qed

theorem update_unknown_id_noop_witness:
  "tl_id \<lparr>tl_id = ''A'', tl_fields = ''Work''\<rparr> \<noteq> tl_id \<lparr>tl_id = ''Z'', tl_fields = ''New''\<rparr>
 \<and> tasks_at \<lparr>taskLists = [\<lparr>tl_id = ''A'', tl_fields = ''Work''\<rparr>],
       tasks = [''A'' \<mapsto> Tasks [\<lparr>task_id = ''1'', task_fields = ''x''\<rparr>]]\<rparr> ''A''
    = Value (Tasks [\<lparr>task_id = ''1'', task_fields = ''x''\<rparr>])
 \<and> ''9'' \<notin> task_id ` set [\<lparr>task_id = ''1'', task_fields = ''x''\<rparr>]
 \<and> invoke (updateTaskList AppProvider_api) (''Z'', \<lparr>tl_id = ''Z'', tl_fields = ''New''\<rparr>)
      (Resolved \<lparr>tl_id = ''Z'', tl_fields = ''New''\<rparr>)
      \<lparr>taskLists = [\<lparr>tl_id = ''A'', tl_fields = ''Work''\<rparr>],
       tasks = [''A'' \<mapsto> Tasks [\<lparr>task_id = ''1'', task_fields = ''x''\<rparr>]]\<rparr>
    = (\<lparr>taskLists = [\<lparr>tl_id = ''A'', tl_fields = ''Work''\<rparr>],
        tasks = [''A'' \<mapsto> Tasks [\<lparr>task_id = ''1'', task_fields = ''x''\<rparr>]]\<rparr>, Inr ())
 \<and> reducer
      \<lparr>taskLists = [\<lparr>tl_id = ''A'', tl_fields = ''Work''\<rparr>],
       tasks = [''A'' \<mapsto> Tasks [\<lparr>task_id = ''1'', task_fields = ''x''\<rparr>]]\<rparr>
      (UPDATE_TASK ''A'' ''9'' \<lparr>task_id = ''9'', task_fields = ''y''\<rparr>)
    = Inr \<lparr>taskLists = [\<lparr>tl_id = ''A'', tl_fields = ''Work''\<rparr>],
           tasks = [''A'' \<mapsto> Tasks [\<lparr>task_id = ''1'', task_fields = ''x''\<rparr>]]\<rparr>"
  using
    update_unknown_id_noop
      [where st = "\<lparr>taskLists = [\<lparr>tl_id = ''A'', tl_fields = ''Work''\<rparr>],
                    tasks = [''A'' \<mapsto> Tasks [\<lparr>task_id = ''1'', task_fields = ''x''\<rparr>]]\<rparr>"
         and p = "\<lparr>tl_id = ''Z'', tl_fields = ''New''\<rparr>" and i = "''Z''"
         and body = "\<lparr>tl_id = ''Z'', tl_fields = ''New''\<rparr>"
         and l = "''A''" and k = "''9''" and t = "\<lparr>task_id = ''9'', task_fields = ''y''\<rparr>"
         and v = "Tasks [\<lparr>task_id = ''1'', task_fields = ''x''\<rparr>]"]
  by (simp add: tasks_at_def)

text \<open>
  Claim C6. With unique ids in \<^verbatim>\<open>taskLists\<close> and an entry \<open>e\<close> with the id \<open>i\<close>
  among them, a successful \<^verbatim>\<open>deleteTaskList(i)\<close> leaves the entries before and after
  \<open>e\<close>, in their order, and the \<^verbatim>\<open>tasks\<close> object exactly as it was: the tasks of the
  deleted list stay under their key.
\<close>

theorem deleteTaskList_removes_entry:
  "distinct (map tl_id (taskLists st)) \<Longrightarrow> taskLists st = pre @ e # post \<Longrightarrow> tl_id e = i \<Longrightarrow>
     invoke (deleteTaskList AppProvider_api) i (Resolved ()) st
       = (st\<lparr>taskLists := pre @ post\<rparr>, Inr ())
   \<and> tasks (fst (invoke (deleteTaskList AppProvider_api) i (Resolved ()) st)) = tasks st"
  using filter_remove_one [of tl_id pre e post]
  by (simp add: invoke_api await_dispatch_def dispatch_def)

theorem deleteTaskList_removes_entry_witness:
  "distinct (map tl_id [\<lparr>tl_id = ''A'', tl_fields = ''Work''\<rparr>, \<lparr>tl_id = ''B'', tl_fields = ''Home''\<rparr>,
       \<lparr>tl_id = ''C'', tl_fields = ''Misc''\<rparr>])
 \<and> invoke (deleteTaskList AppProvider_api) ''B'' (Resolved ())
      \<lparr>taskLists = [\<lparr>tl_id = ''A'', tl_fields = ''Work''\<rparr>, \<lparr>tl_id = ''B'', tl_fields = ''Home''\<rparr>,
         \<lparr>tl_id = ''C'', tl_fields = ''Misc''\<rparr>],
       tasks = [''B'' \<mapsto> Tasks [\<lparr>task_id = ''1'', task_fields = ''x''\<rparr>]]\<rparr>
    = (\<lparr>taskLists = [\<lparr>tl_id = ''A'', tl_fields = ''Work''\<rparr>, \<lparr>tl_id = ''C'', tl_fields = ''Misc''\<rparr>],
        tasks = [''B'' \<mapsto> Tasks [\<lparr>task_id = ''1'', task_fields = ''x''\<rparr>]]\<rparr>, Inr ())"
  using
    deleteTaskList_removes_entry
      [where st = "\<lparr>taskLists = [\<lparr>tl_id = ''A'', tl_fields = ''Work''\<rparr>,
                       \<lparr>tl_id = ''B'', tl_fields = ''Home''\<rparr>, \<lparr>tl_id = ''C'', tl_fields = ''Misc''\<rparr>],
                    tasks = [''B'' \<mapsto> Tasks [\<lparr>task_id = ''1'', task_fields = ''x''\<rparr>]]\<rparr>"
         and pre = "[\<lparr>tl_id = ''A'', tl_fields = ''Work''\<rparr>]"
         and e = "\<lparr>tl_id = ''B'', tl_fields = ''Home''\<rparr>"
         and post = "[\<lparr>tl_id = ''C'', tl_fields = ''Misc''\<rparr>]" and i = "''B''"]
  by simp

text \<open>
  Claim C7. \<^verbatim>\<open>createTask(listId, data)\<close> appends the task the server returns under
  \<^verbatim>\<open>tasks[listId]\<close>.

  The type of the api declares \<^verbatim>\<open>createTask\<close>, the reducer has the transition
  (\<open>reducer_CREATE_TASK_appends\<close>), but the object gives the method no implementation:
  the call throws, no request is sent, no action is dispatched, and the state is the
  prior one whatever the server would have answered.
\<close>

theorem createTask_not_callable:
  "invoke (createTask AppProvider_api) (''A'', ''x'')
      (Resolved \<lparr>task_id = ''1'', task_fields = ''x''\<rparr>) initialState
     = (initialState, Inl TypeError)
 \<and> tasks_at initialState ''A'' = Value Undefined"
  by (simp add: AppProvider_api_def initialState_def tasks_at_def Object_prototype_keys_def)

text \<open>
  Claim C8. Outside an \<^verbatim>\<open>AppProvider\<close>, \<^verbatim>\<open>useAppContext\<close> throws its usage error
  and returns no value; inside, it returns the provider's value: the state and the api
  object.
\<close>

theorem useAppContext_scope:
  "useAppContext Outside = Inl (Error ''useAppContext must be used within an AppProvider'')
 \<and> useAppContext (WithinProvider st) = Inr \<lparr>state = st, api = AppProvider_api\<rparr>"
  by (simp add: useAppContext_def)

text \<open>
  Claim C9. The api object defines \<^verbatim>\<open>fetchTaskLists\<close>, \<^verbatim>\<open>getTaskList\<close>,
  \<^verbatim>\<open>createTaskList\<close>, \<^verbatim>\<open>updateTaskList\<close>, \<^verbatim>\<open>deleteTaskList\<close> and
  \<^verbatim>\<open>fetchTasks\<close> and nothing else: \<^verbatim>\<open>createTask\<close>, \<^verbatim>\<open>updateTask\<close> and
  \<^verbatim>\<open>deleteTask\<close> are undefined, and every call of one of them, with any arguments
  and any server, fails with a \<^verbatim>\<open>TypeError\<close> and leaves the state as it is.
\<close>

theorem api_task_mutators_undefined:
  "createTask AppProvider_api = None \<and> updateTask AppProvider_api = None
 \<and> deleteTask AppProvider_api = None
 \<and> fetchTaskLists AppProvider_api \<noteq> None \<and> getTaskList AppProvider_api \<noteq> None
 \<and> createTaskList AppProvider_api \<noteq> None \<and> updateTaskList AppProvider_api \<noteq> None
 \<and> deleteTaskList AppProvider_api \<noteq> None \<and> fetchTasks AppProvider_api \<noteq> None
 \<and> invoke (createTask AppProvider_api) a1 p1 st = (st, Inl TypeError)
 \<and> invoke (updateTask AppProvider_api) a2 p2 st = (st, Inl TypeError)
 \<and> invoke (deleteTask AppProvider_api) a3 p3 st = (st, Inl TypeError)"
  by (simp add: AppProvider_api_def)

text \<open>
  Claim C10. When \<^verbatim>\<open>tasks\<close> has no key \<open>l\<close>, the \<^verbatim>\<open>UPDATE_TASK\<close> and the
  \<^verbatim>\<open>DELETE_TASK\<close> transition for \<open>l\<close> give the key the value \<^verbatim>\<open>undefined\<close>, not
  an array, while \<^verbatim>\<open>CREATE_TASK\<close> gives it the array of the one new task.

  This does not hold for every such key: the initial state has no key \<open>constructor\<close>, the read
  of it finds the function of the prototype, and each of the three transitions throws
  and gives no state.
\<close>

theorem absent_key_counterexample:
  "tasks initialState ''constructor'' = None
 \<and> reducer initialState (UPDATE_TASK ''constructor'' ''1'' \<lparr>task_id = ''1'', task_fields = ''x''\<rparr>) = Inl TypeError
 \<and> reducer initialState (DELETE_TASK ''constructor'' ''1'') = Inl TypeError
 \<and> reducer initialState (CREATE_TASK ''constructor'' \<lparr>task_id = ''1'', task_fields = ''x''\<rparr>) = Inl TypeError"
  by (simp add: initialState_def tasks_at_def Object_prototype_keys_def)

text \<open>
  Claim C10, amended. When \<^verbatim>\<open>tasks\<close> has no key \<open>l\<close> and \<open>l\<close> is not the name of a
  property of \<^verbatim>\<open>Object.prototype\<close>, the \<^verbatim>\<open>UPDATE_TASK\<close> and the \<^verbatim>\<open>DELETE_TASK\<close>
  transition for \<open>l\<close> succeed and give the key the value \<^verbatim>\<open>undefined\<close>, not an
  array, while \<^verbatim>\<open>CREATE_TASK\<close> gives it the array of the one new task; nothing else of
  the state changes.
\<close>

theorem update_delete_absent_key_undefined:
  "tasks st l = None \<Longrightarrow> l \<notin> set Object_prototype_keys \<Longrightarrow>
     reducer st (UPDATE_TASK l k t) = Inr (st\<lparr>tasks := (tasks st)(l \<mapsto> Undefined)\<rparr>)
   \<and> reducer st (DELETE_TASK l k) = Inr (st\<lparr>tasks := (tasks st)(l \<mapsto> Undefined)\<rparr>)
   \<and> reducer st (CREATE_TASK l t) = Inr (st\<lparr>tasks := (tasks st)(l \<mapsto> Tasks [t])\<rparr>)"
  by (simp add: tasks_at_def)

theorem update_delete_absent_key_undefined_witness:
  "tasks initialState ''A'' = None
 \<and> ''A'' \<notin> set Object_prototype_keys
 \<and> reducer initialState (UPDATE_TASK ''A'' ''1'' \<lparr>task_id = ''1'', task_fields = ''x''\<rparr>)
     = Inr \<lparr>taskLists = [], tasks = [''A'' \<mapsto> Undefined]\<rparr>
 \<and> reducer initialState (DELETE_TASK ''A'' ''1'')
     = Inr \<lparr>taskLists = [], tasks = [''A'' \<mapsto> Undefined]\<rparr>
 \<and> reducer initialState (CREATE_TASK ''A'' \<lparr>task_id = ''1'', task_fields = ''x''\<rparr>)
     = Inr \<lparr>taskLists = [], tasks = [''A'' \<mapsto> Tasks [\<lparr>task_id = ''1'', task_fields = ''x''\<rparr>]]\<rparr>"
proof -
  have h: "tasks initialState ''A'' = None"
    by (simp add: initialState_def)
  have n: "''A'' \<notin> set Object_prototype_keys"
    by (simp add: Object_prototype_keys_def)
  have "initialState\<lparr>tasks := (tasks initialState)(''A'' \<mapsto> w)\<rparr>
      = \<lparr>taskLists = [], tasks = [''A'' \<mapsto> w]\<rparr>" for w
    by (simp add: initialState_def)
  then show ?thesis
    using h n update_delete_absent_key_undefined
      [OF h n, of "''1''" "\<lparr>task_id = ''1'', task_fields = ''x''\<rparr>"]
    by simp
qed

end
